theory Spec2Isabelle
  imports Main "HOL-Library.AList"
begin

section \<open>The email stage of authentik (authentik/stages/email/stage.py)\<close>

text \<open>
  The stage view is a thin adapter over the flow executor, the token table, the session
  and the mailer. Everything it reads or changes is made explicit here: the view
  \<open>self\<close> is a record of the executor's plan, stage and flow, of the rows of
  \<open>FlowToken.objects\<close>, of the user objects, of the queued django messages and of the
  mails handed to \<open>send_mails\<close>. What the view imports from modules that are not part of
  the file (constants, helpers of the base classes, django utilities) is a field of the
  record \<open>Collaborators\<close>, so every statement below holds for any implementation of them.
\<close>

subsection \<open>Python values and dictionaries\<close>

type_synonym user_ref = nat

text \<open>Values stored in the plan context. A user object is held by reference.\<close>

datatype pyval = PyNone | PyBool bool | PyStr string | PyUser user_ref

text \<open>Python's truth value of a context value, as tested by \<open>and\<close> and \<open>not\<close>.\<close>

fun truthy :: "pyval \<Rightarrow> bool" where
  "truthy PyNone = False"
| "truthy (PyBool b) = b"
| "truthy (PyStr s) = (s \<noteq> [])"
| "truthy (PyUser u) = True"

text \<open>A dict is an association list in insertion order.\<close>

definition dict_in :: "'k \<Rightarrow> ('k \<times> 'v) list \<Rightarrow> bool" where
  "dict_in k d = (map_of d k \<noteq> None)"

definition dict_get :: "('k \<times> 'v) list \<Rightarrow> 'k \<Rightarrow> 'v \<Rightarrow> 'v" where
  "dict_get d k dflt = (case map_of d k of None \<Rightarrow> dflt | Some v \<Rightarrow> v)"

definition dict_set :: "('k \<times> 'v) list \<Rightarrow> 'k \<Rightarrow> 'v \<Rightarrow> ('k \<times> 'v) list" where
  "dict_set d k v = AList.update k v d"

subsection \<open>Data model\<close>

text \<open>Timestamps and durations count microseconds, the resolution of \<open>datetime\<close>.
  They are unbounded integers: the range check of \<open>datetime\<close> is outside the model.\<close>

type_synonym timestamp = int

definition timedelta_minutes :: "int \<Rightarrow> int" where
  "timedelta_minutes m = m * 60000000"

record User =
  username :: string
  email :: string
  is_active :: bool

record EmailStage =
  name :: string
  token_expiry :: int
  subject :: string
  template :: string
  activate_user_on_success :: bool

record Flow =
  slug :: string

record FlowPlan =
  plan_context :: "(string \<times> pyval) list"

text \<open>A row of \<open>FlowToken.objects\<close>. \<open>tok_identifier\<close> is the column \<open>identifier\<close>,
  \<open>pickled_plan\<close> the column \<open>_plan\<close>; the key default is drawn when the row is created.\<close>

record FlowToken =
  tok_identifier :: string
  key :: string
  expires :: timestamp
  user :: user_ref
  flow :: Flow
  pickled_plan :: string

text \<open>
  The request as the view sees it: the session (each session value is itself a dict,
  the one under \<open>SESSION_KEY_GET\<close> holding the query parameters of the first request),
  and the values that \<open>now()\<close> and the key default of the token model yield while the
  request is served.
\<close>

record HttpRequest =
  session :: "(string \<times> (string \<times> string) list) list"
  now :: timestamp
  default_token_key :: string

record TemplateContext =
  ctx_url :: string
  ctx_user :: user_ref
  ctx_expires :: timestamp

record TemplateEmailMessage =
  msg_subject :: string
  msg_to :: "pyval list"
  msg_language :: string
  msg_template_name :: string
  msg_template_context :: TemplateContext

datatype message_level = Success | Error

record EmailStageView =
  executor_plan :: FlowPlan
  executor_current_stage :: EmailStage
  executor_flow :: Flow
  flow_tokens :: "FlowToken list"
  users :: "user_ref \<Rightarrow> User"
  saved_users :: "user_ref \<rightharpoonup> User"
  messages :: "(message_level \<times> string) list"
  outbox :: "(EmailStage \<times> TemplateEmailMessage) list"

text \<open>
  What the file imports. The four constants come from \<open>authentik.flows.planner\<close> and
  \<open>authentik.flows.views.executor\<close>; \<open>get_pending_user\<close> is inherited from the stage
  base class and reads the request and the plan context; \<open>user_str\<close> is \<open>str\<close> of a
  user, \<open>user_locale\<close> its method \<open>locale\<close>; \<open>is_expired\<close> and \<open>expire_action\<close>
  are the property and the method of the token model, the latter working on the token
  object and the token table; the others are django utilities.
\<close>

record Collaborators =
  QS_KEY_TOKEN :: string
  SESSION_KEY_GET :: string
  PLAN_CONTEXT_IS_RESTORED :: string
  PLAN_CONTEXT_PENDING_USER :: string
  get_pending_user :: "HttpRequest \<Rightarrow> (string \<times> pyval) list \<Rightarrow> user_ref"
  user_str :: "User \<Rightarrow> string"
  user_locale :: "User \<Rightarrow> HttpRequest \<Rightarrow> string"
  slugify :: "string \<Rightarrow> string"
  gettext :: "string \<Rightarrow> string"
  pickle :: "FlowPlan \<Rightarrow> string"
  reverse_interface :: "HttpRequest \<Rightarrow> string \<Rightarrow> string"
  urlencode :: "(string \<times> string) list \<Rightarrow> string"
  build_absolute_uri :: "HttpRequest \<Rightarrow> string \<Rightarrow> string"
  is_expired :: "HttpRequest \<Rightarrow> FlowToken \<Rightarrow> bool"
  expire_action :: "HttpRequest \<Rightarrow> FlowToken \<Rightarrow> FlowToken list \<Rightarrow> FlowToken \<times> FlowToken list"

definition PLAN_CONTEXT_EMAIL_SENT :: string where
  "PLAN_CONTEXT_EMAIL_SENT = ''email_sent''"

definition PLAN_CONTEXT_EMAIL_OVERRIDE :: string where
  "PLAN_CONTEXT_EMAIL_OVERRIDE = ''email''"

subsection \<open>get_token\<close>

text \<open>The identifier computed by \<open>get_token\<close>:
  \<^verbatim>\<open>slugify(f"ak-email-stage-{current_stage.name}-{pending_user}")\<close>.\<close>

definition token_identifier :: "Collaborators \<Rightarrow> HttpRequest \<Rightarrow> EmailStageView \<Rightarrow> string" where
  "token_identifier E request self =
     (let pending_user = get_pending_user E request (plan_context (executor_plan self));
          current_stage = executor_current_stage self
      in slugify E (''ak-email-stage-'' @ name current_stage @ ''-''
                      @ user_str E (users self pending_user)))"

text \<open>\<^verbatim>\<open>FlowToken.objects.filter(identifier=identifier)\<close>, in the order of the table.\<close>

definition objects_filter :: "string \<Rightarrow> FlowToken list \<Rightarrow> FlowToken list" where
  "objects_filter i rows = filter (\<lambda>t. tok_identifier t = i) rows"

text \<open>\<^verbatim>\<open>FlowToken.objects.create(...)\<close>: the new row joins the table and is returned.\<close>

definition objects_create :: "FlowToken \<Rightarrow> EmailStageView \<Rightarrow> FlowToken \<times> EmailStageView" where
  "objects_create t self = (t, self\<lparr>flow_tokens := flow_tokens self @ [t]\<rparr>)"

definition get_token :: "Collaborators \<Rightarrow> HttpRequest \<Rightarrow> EmailStageView \<Rightarrow> FlowToken \<times> EmailStageView" where
  "get_token E request self =
     (let pending_user = get_pending_user E request (plan_context (executor_plan self));
          current_stage = executor_current_stage self;
          valid_delta = timedelta_minutes (token_expiry current_stage + 1);
          ident = token_identifier E request self;
          tokens = objects_filter ident (flow_tokens self)
      in case tokens of
           [] \<Rightarrow>
             objects_create
               \<lparr>tok_identifier = ident,
                key = default_token_key request,
                expires = now request + valid_delta,
                user = pending_user,
                flow = executor_flow self,
                pickled_plan = pickle E (executor_plan self)\<rparr> self
         | token # _ \<Rightarrow>
             if is_expired E request token
             then (case expire_action E request token (flow_tokens self) of
                     (token', rows) \<Rightarrow> (token', self\<lparr>flow_tokens := rows\<rparr>))
             else (token, self))"

text \<open>
  Modelled from the spec: the property \<open>is_expired\<close> of the token model, which is
  not part of the file. The spec has expiry as "logical, via timestamp comparison": a
  token is stale once the clock has passed its \<open>expires\<close>.
\<close>

definition FlowToken_is_expired :: "HttpRequest \<Rightarrow> FlowToken \<Rightarrow> bool" where
  "FlowToken_is_expired request token = (expires token < now request)"

text \<open>
  Modelled from the spec: the method \<open>expire_action\<close> of the token model (the spec's
  \<open>rotate\<close>), which is not part of the file. The spec has it replace the key by a new
  one and extend the expiry to the time of the call plus the time to live, preserving the
  identifier; the renewed token takes the place of the old row. The new key is the one
  drawn while the request is served; the time to live is a duration, in microseconds.
\<close>

definition FlowToken_expire_action ::
    "nat \<Rightarrow> HttpRequest \<Rightarrow> FlowToken \<Rightarrow> FlowToken list \<Rightarrow> FlowToken \<times> FlowToken list" where
  "FlowToken_expire_action ttl request token rows =
     (let token' = token\<lparr>key := default_token_key request, expires := now request + int ttl\<rparr>
      in (token', map (\<lambda>t. if t = token then token' else t) rows))"

text \<open>The collaborators with the token model of the spec put in.\<close>

definition with_token_model :: "nat \<Rightarrow> Collaborators \<Rightarrow> Collaborators" where
  "with_token_model ttl E =
     E\<lparr>is_expired := FlowToken_is_expired, expire_action := FlowToken_expire_action ttl\<rparr>"

subsection \<open>send_email\<close>

definition get_full_url ::
    "Collaborators \<Rightarrow> HttpRequest \<Rightarrow> EmailStageView \<Rightarrow> (string \<times> string) list \<Rightarrow> string" where
  "get_full_url E request self kwargs =
     (let base_url = reverse_interface E request (slug (executor_flow self));
          relative_url = base_url @ ''?'' @ urlencode E kwargs
      in build_absolute_uri E request relative_url)"

text \<open>\<open>send_mails(current_stage, message)\<close> hands the message to the mailer: the call is recorded.\<close>

definition send_mails :: "EmailStage \<Rightarrow> TemplateEmailMessage \<Rightarrow> EmailStageView \<Rightarrow> EmailStageView" where
  "send_mails stage message self = self\<lparr>outbox := outbox self @ [(stage, message)]\<rparr>"

definition send_email :: "Collaborators \<Rightarrow> HttpRequest \<Rightarrow> EmailStageView \<Rightarrow> EmailStageView" where
  "send_email E request self =
     (let pending_user = get_pending_user E request (plan_context (executor_plan self));
          email_override = dict_get (plan_context (executor_plan self)) PLAN_CONTEXT_EMAIL_OVERRIDE PyNone;
          recipient = (if \<not> truthy email_override
                       then PyStr (email (users self pending_user)) else email_override);
          current_stage = executor_current_stage self
      in case get_token E request self of
           (token, self') \<Rightarrow>
             send_mails current_stage
               \<lparr>msg_subject = gettext E (subject current_stage),
                msg_to = [recipient],
                msg_language = user_locale E (users self' pending_user) request,
                msg_template_name = template current_stage,
                msg_template_context =
                  \<lparr>ctx_url = get_full_url E request self' [(QS_KEY_TOKEN E, key token)],
                   ctx_user = pending_user,
                   ctx_expires = expires token\<rparr>\<rparr> self')"

subsection \<open>The view: get, challenge_valid, challenge_invalid\<close>


record ChallengeResponse =
  response_data :: "(string \<times> string) list"

datatype HttpResponse =
    Executor_stage_ok
  | Executor_stage_invalid
  | ChallengeStageView_get
  | ChallengeStageView_challenge_invalid ChallengeResponse


definition messages_success :: "string \<Rightarrow> EmailStageView \<Rightarrow> EmailStageView" where
  "messages_success text self = self\<lparr>messages := messages self @ [(Success, text)]\<rparr>"

definition messages_error :: "string \<Rightarrow> EmailStageView \<Rightarrow> EmailStageView" where
  "messages_error text self = self\<lparr>messages := messages self @ [(Error, text)]\<rparr>"

text \<open>\<open>user.save()\<close> writes the user object to its row.\<close>

definition user_save :: "user_ref \<Rightarrow> EmailStageView \<Rightarrow> EmailStageView" where
  "user_save u self = self\<lparr>saved_users := (saved_users self)(u \<mapsto> users self u)\<rparr>"

text \<open>The first test of \<open>get\<close>: the user came back from the email link.\<close>

definition came_back_from_link :: "Collaborators \<Rightarrow> HttpRequest \<Rightarrow> EmailStageView \<Rightarrow> bool" where
  "came_back_from_link E request self =
     (dict_in (QS_KEY_TOKEN E) (dict_get (session request) (SESSION_KEY_GET E) [])
      \<and> truthy (dict_get (plan_context (executor_plan self)) (PLAN_CONTEXT_IS_RESTORED E) (PyBool False)))"

definition context_set :: "string \<Rightarrow> pyval \<Rightarrow> EmailStageView \<Rightarrow> EmailStageView" where
  "context_set k v self =
     self\<lparr>executor_plan := (executor_plan self)\<lparr>plan_context := dict_set (plan_context (executor_plan self)) k v\<rparr>\<rparr>"

definition get :: "Collaborators \<Rightarrow> HttpRequest \<Rightarrow> EmailStageView \<Rightarrow> HttpResponse \<times> EmailStageView" where
  "get E request self =
     (if came_back_from_link E request self then
        (let self1 = messages_success (gettext E ''Successfully verified Email.'') self;
             self2 = (if activate_user_on_success (executor_current_stage self1)
                      then (let u = get_pending_user E request (plan_context (executor_plan self1))
                            in user_save u
                                 (self1\<lparr>users := (users self1)(u := (users self1 u)\<lparr>is_active := True\<rparr>)\<rparr>))
                      else self1)
         in (Executor_stage_ok, self2))
      else if \<not> dict_in (PLAN_CONTEXT_PENDING_USER E) (plan_context (executor_plan self)) then
        (Executor_stage_invalid, messages_error (gettext E ''No pending user.'') self)
      else
        (let self1 = (if \<not> dict_in PLAN_CONTEXT_EMAIL_SENT (plan_context (executor_plan self))
                      then context_set PLAN_CONTEXT_EMAIL_SENT (PyBool True) (send_email E request self)
                      else self)
         in (ChallengeStageView_get, self1)))"

definition challenge_valid :: "ChallengeResponse \<Rightarrow> EmailStageView \<Rightarrow> HttpResponse \<times> EmailStageView" where
  "challenge_valid response self = (ChallengeStageView_challenge_invalid response, self)"

definition challenge_invalid ::
    "Collaborators \<Rightarrow> HttpRequest \<Rightarrow> ChallengeResponse \<Rightarrow> EmailStageView \<Rightarrow> HttpResponse \<times> EmailStageView" where
  "challenge_invalid E request response self =
     (if \<not> dict_in (PLAN_CONTEXT_PENDING_USER E) (plan_context (executor_plan self)) then
        (ChallengeStageView_challenge_invalid response,
         messages_error (gettext E ''No pending user.'') self)
      else
        (ChallengeStageView_challenge_invalid response, send_email E request self))"


subsection \<open>Example values\<close>

definition alice :: User where
  "alice = \<lparr>username = ''alice'', email = ''alice@example.org'', is_active = False\<rparr>"

definition example_collaborators :: Collaborators where
  "example_collaborators =
     \<lparr>QS_KEY_TOKEN = ''flow_token'',
      SESSION_KEY_GET = ''authentik/flows/get'',
      PLAN_CONTEXT_IS_RESTORED = ''is_restored'',
      PLAN_CONTEXT_PENDING_USER = ''pending_user'',
      get_pending_user = (\<lambda>request ctx. case map_of ctx ''pending_user'' of Some (PyUser u) \<Rightarrow> u | _ \<Rightarrow> 0),
      user_str = username,
      user_locale = (\<lambda>u request. ''en''),
      slugify = (\<lambda>s. s),
      gettext = (\<lambda>s. s),
      pickle = (\<lambda>p. ''plan''),
      reverse_interface = (\<lambda>request s. ''/if/flow/'' @ s @ ''/''),
      urlencode = (\<lambda>kwargs. concat (map (\<lambda>(k, v). k @ ''='' @ v) kwargs)),
      build_absolute_uri = (\<lambda>request u. ''https://authentik.example'' @ u),
      is_expired = FlowToken_is_expired,
      expire_action = FlowToken_expire_action 960000000\<rparr>"

definition example_stage :: EmailStage where
  "example_stage =
     \<lparr>name = ''email'', token_expiry = 16, subject = ''authentik'',
      template = ''email/account_confirmation.html'', activate_user_on_success = True\<rparr>"

text \<open>A view whose plan holds a pending user and nothing else; no token, no mail yet.\<close>

definition example_view :: EmailStageView where
  "example_view =
     \<lparr>executor_plan = \<lparr>plan_context = [(''pending_user'', PyUser 0)]\<rparr>,
      executor_current_stage = example_stage,
      executor_flow = \<lparr>slug = ''enrollment''\<rparr>,
      flow_tokens = [],
      users = (\<lambda>u. alice),
      saved_users = Map.empty,
      messages = [],
      outbox = []\<rparr>"

text \<open>A first request at time 0, and the request of a user who followed the link.\<close>

definition example_request :: HttpRequest where
  "example_request = \<lparr>session = [], now = 0, default_token_key = ''key-A''\<rparr>"

definition link_request :: HttpRequest where
  "link_request =
     \<lparr>session = [(''authentik/flows/get'', [(''flow_token'', ''key-A'')])],
      now = timedelta_minutes 5, default_token_key = ''key-B''\<rparr>"

text \<open>The token that the first request creates, and the view once it is stored.\<close>

definition token_A :: FlowToken where
  "token_A =
     \<lparr>tok_identifier = ''ak-email-stage-email-alice'', key = ''key-A'',
      expires = timedelta_minutes 17, user = 0, flow = \<lparr>slug = ''enrollment''\<rparr>,
      pickled_plan = ''plan''\<rparr>"

definition view_with_token :: EmailStageView where
  "view_with_token = example_view\<lparr>flow_tokens := [token_A]\<rparr>"

text \<open>A reload at the very moment the token expires, and one a minute later.\<close>

definition reload_request :: HttpRequest where
  "reload_request = \<lparr>session = [], now = timedelta_minutes 17, default_token_key = ''key-B''\<rparr>"

definition late_request :: HttpRequest where
  "late_request = \<lparr>session = [], now = timedelta_minutes 18, default_token_key = ''key-B''\<rparr>"

text \<open>The same late reload, with the key draw giving the key of the token once more.\<close>

definition repeating_request :: HttpRequest where
  "repeating_request = \<lparr>session = [], now = timedelta_minutes 18, default_token_key = ''key-A''\<rparr>"

text \<open>The plan restored from the token: the pending user is there, the email-sent marker
  is not, since the plan was pickled before the marker was set.\<close>

definition restored_view :: EmailStageView where
  "restored_view =
     example_view\<lparr>executor_plan :=
       \<lparr>plan_context = [(''pending_user'', PyUser 0), (''is_restored'', PyBool True)]\<rparr>\<rparr>"

text \<open>Plans without a pending user; in the restored one the stage does not activate users.\<close>

definition view_without_user :: EmailStageView where
  "view_without_user = example_view\<lparr>executor_plan := \<lparr>plan_context = []\<rparr>\<rparr>"

definition restored_view_without_user :: EmailStageView where
  "restored_view_without_user =
     example_view\<lparr>executor_plan := \<lparr>plan_context = [(''is_restored'', PyBool True)]\<rparr>,
                  executor_current_stage := example_stage\<lparr>activate_user_on_success := False\<rparr>\<rparr>"

text \<open>A plan with an address under the key \<open>email\<close>, and a submitted response.\<close>

definition view_with_override :: EmailStageView where
  "view_with_override =
     example_view\<lparr>executor_plan :=
       \<lparr>plan_context = [(''pending_user'', PyUser 0), (''email'', PyStr ''bob@example.org'')]\<rparr>\<rparr>"

definition example_response :: ChallengeResponse where
  "example_response = \<lparr>response_data = []\<rparr>"

section \<open>Properties\<close>

subsection \<open>Auxiliary facts\<close>

lemmas example_defs =
  example_collaborators_def example_view_def example_stage_def example_request_def
  link_request_def alice_def token_A_def view_with_token_def reload_request_def
  late_request_def restored_view_def view_without_user_def restored_view_without_user_def
  example_response_def view_with_override_def repeating_request_def

text \<open>\<open>get_token\<close> touches the token table only; \<open>send_email\<close> adds one mail.\<close>

lemma get_token_frame:
  "snd (get_token E request self) = self\<lparr>flow_tokens := flow_tokens (snd (get_token E request self))\<rparr>"
  by (simp add: get_token_def objects_create_def Let_def split: list.splits prod.splits)

lemma get_token_outbox [simp]: "outbox (snd (get_token E request self)) = outbox self"
  by (subst get_token_frame) simp

lemma get_token_plan [simp]: "executor_plan (snd (get_token E request self)) = executor_plan self"
  by (subst get_token_frame) simp

lemma send_email_message:
  "\<exists>message. send_email E request self =
       send_mails (executor_current_stage self) message (snd (get_token E request self))
     \<and> msg_to message =
         [if truthy (dict_get (plan_context (executor_plan self)) PLAN_CONTEXT_EMAIL_OVERRIDE PyNone)
          then dict_get (plan_context (executor_plan self)) PLAN_CONTEXT_EMAIL_OVERRIDE PyNone
          else PyStr (email (users self (get_pending_user E request (plan_context (executor_plan self)))))]"
  by (cases "get_token E request self") (auto simp add: send_email_def Let_def)

lemma send_email_plan [simp]: "executor_plan (send_email E request self) = executor_plan self"
proof -
  from send_email_message [of E request self] obtain message where
    "send_email E request self =
       send_mails (executor_current_stage self) message (snd (get_token E request self))"
    by blast
  then show ?thesis by (simp add: send_mails_def)
qed

lemma send_email_outbox:
  "\<exists>mail. outbox (send_email E request self) = outbox self @ [mail]"
proof -
  from send_email_message [of E request self] obtain message where
    "send_email E request self =
       send_mails (executor_current_stage self) message (snd (get_token E request self))"
    by blast
  then show ?thesis by (simp add: send_mails_def)
qed

lemma dict_in_dict_set [simp]: "dict_in k (dict_set d k v)"
  by (simp add: dict_in_def dict_set_def update_conv')

lemma map_of_dict_set [simp]: "map_of (dict_set d k v) k = Some v"
  by (simp add: dict_set_def update_conv')




lemma context_set_outbox [simp]: "outbox (context_set k v self) = outbox self"
  by (simp add: context_set_def)

lemma context_set_plan [simp]:
  "plan_context (executor_plan (context_set k v self)) = dict_set (plan_context (executor_plan self)) k v"
  by (simp add: context_set_def)

lemma objects_filter_append [simp]:
  "objects_filter i (rows @ rows') = objects_filter i rows @ objects_filter i rows'"
  by (simp add: objects_filter_def)

lemma token_identifier_frame:
  assumes "get_pending_user E request2 (plan_context (executor_plan self))
             = get_pending_user E request1 (plan_context (executor_plan self))"
  shows "token_identifier E request2 (self\<lparr>flow_tokens := rows\<rparr>) = token_identifier E request1 self"
  using assms by (simp add: token_identifier_def Let_def)

lemma token_identifier_with_token_model [simp]:
  "token_identifier (with_token_model ttl E) request self = token_identifier E request self"
  by (simp add: token_identifier_def with_token_model_def)


subsection \<open>The claims\<close>

text \<open>
  C1. A GET whose session holds the query parameters of the first request with the token
  key among them, and whose plan context has the is-restored flag set to \<open>True\<close>, returns
  \<open>executor.stage_ok()\<close>; no response is involved. When the stage has
  \<open>activate_user_on_success\<close>, the pending user object has \<open>is_active\<close> set and is saved
  by then.
\<close>

theorem get_came_back_stage_ok:
  assumes "dict_in (QS_KEY_TOKEN E) (dict_get (session request) (SESSION_KEY_GET E) [])"
      and "map_of (plan_context (executor_plan self)) (PLAN_CONTEXT_IS_RESTORED E) = Some (PyBool True)"
  shows "fst (get E request self) = Executor_stage_ok
       \<and> (activate_user_on_success (executor_current_stage self) \<longrightarrow>
            is_active (users (snd (get E request self))
                         (get_pending_user E request (plan_context (executor_plan self))))
          \<and> saved_users (snd (get E request self))
                (get_pending_user E request (plan_context (executor_plan self)))
              = Some ((users self (get_pending_user E request (plan_context (executor_plan self))))
                        \<lparr>is_active := True\<rparr>))"
  using assms
  by (simp add: get_def came_back_from_link_def dict_get_def Let_def messages_success_def
        user_save_def)

text \<open>
  C1, at a concrete input: the restored plan of alice, the request of the link.
\<close>

theorem get_came_back_stage_ok_witness:
  "dict_in (QS_KEY_TOKEN example_collaborators)
     (dict_get (session link_request) (SESSION_KEY_GET example_collaborators) [])
   \<and> map_of (plan_context (executor_plan restored_view))
        (PLAN_CONTEXT_IS_RESTORED example_collaborators) = Some (PyBool True)
   \<and> activate_user_on_success (executor_current_stage restored_view)
   \<and> fst (get example_collaborators link_request restored_view) = Executor_stage_ok
   \<and> is_active (users (snd (get example_collaborators link_request restored_view)) 0)
   \<and> saved_users (snd (get example_collaborators link_request restored_view)) 0
       = Some (alice\<lparr>is_active := True\<rparr>)"
proof -
  have h1: "dict_in (QS_KEY_TOKEN example_collaborators)
     (dict_get (session link_request) (SESSION_KEY_GET example_collaborators) [])"
    by (simp add: example_defs dict_in_def dict_get_def)
  have h2: "map_of (plan_context (executor_plan restored_view))
        (PLAN_CONTEXT_IS_RESTORED example_collaborators) = Some (PyBool True)"
    by (simp add: example_defs)
  have h3: "activate_user_on_success (executor_current_stage restored_view)"
    by (simp add: example_defs)
  have u: "get_pending_user example_collaborators link_request
             (plan_context (executor_plan restored_view)) = 0"
    by (simp add: example_defs)
  have a: "users restored_view 0 = alice"
    by (simp add: example_defs)
  from get_came_back_stage_ok [OF h1 h2] h1 h2 h3 u a show ?thesis by simp
qed







text \<open>
  C4. Two calls of \<open>get_token\<close> for the same stage and pending user, the second on the
  state the first one left, return the same token, hence the same key, and the second
  creates nothing, provided the token is met before its expiry: a token that the first call
  finds is not expired then, and the token it returns is not expired at the second call.
  This holds for any \<open>is_expired\<close> and \<open>expire_action\<close>.
\<close>

theorem get_token_twice_same_key:
  assumes first: "get_token E request1 self = (token1, self1)"
      and same_user: "get_pending_user E request2 (plan_context (executor_plan self))
                        = get_pending_user E request1 (plan_context (executor_plan self))"
      and fresh1: "\<forall>t rest. objects_filter (token_identifier E request1 self) (flow_tokens self)
                                = t # rest \<longrightarrow> \<not> is_expired E request1 t"
      and fresh2: "\<not> is_expired E request2 token1"
  shows "get_token E request2 self1 = (token1, self1)
       \<and> key (fst (get_token E request2 self1)) = key token1"
proof -
  let ?i = "token_identifier E request1 self"
  from get_token_frame [of E request1 self] first
  have frame: "self1 = self\<lparr>flow_tokens := flow_tokens self1\<rparr>" by simp
  have ident: "token_identifier E request2 self1 = ?i"
    using token_identifier_frame [OF same_user, of "flow_tokens self1"] frame by simp
  have found: "\<exists>rest. objects_filter ?i (flow_tokens self1) = token1 # rest"
  proof (cases "objects_filter ?i (flow_tokens self)")
    case Nil
    with first have "tok_identifier token1 = ?i" and "flow_tokens self1 = flow_tokens self @ [token1]"
      by (auto simp add: get_token_def Let_def objects_create_def)
    with Nil show ?thesis by (simp add: objects_filter_def)
  next
    case (Cons t rest)
    with fresh1 have "\<not> is_expired E request1 t" by blast
    with Cons first have "token1 = t" and "self1 = self"
      by (simp_all add: get_token_def Let_def)
    with Cons show ?thesis by simp
  qed
  then obtain rest where "objects_filter ?i (flow_tokens self1) = token1 # rest" by blast
  with ident fresh2 have "get_token E request2 self1 = (token1, self1)"
    by (simp add: get_token_def Let_def)
  then show ?thesis by simp
qed

text \<open>
  C4, at a concrete input: the first call creates the token, the reload finds it.
\<close>

theorem get_token_twice_same_key_witness:
  "get_token example_collaborators example_request example_view
     = (token_A, view_with_token)
   \<and> \<not> is_expired example_collaborators reload_request token_A
   \<and> get_token example_collaborators reload_request view_with_token = (token_A, view_with_token)
   \<and> key (fst (get_token example_collaborators reload_request view_with_token)) = ''key-A''"
proof -
  have first: "get_token example_collaborators example_request example_view
                 = (token_A, view_with_token)"
    by (simp add: example_defs get_token_def token_identifier_def objects_filter_def
          objects_create_def Let_def timedelta_minutes_def)
  have same_user: "get_pending_user example_collaborators reload_request
                     (plan_context (executor_plan example_view))
                   = get_pending_user example_collaborators example_request
                       (plan_context (executor_plan example_view))"
    by (simp add: example_defs)
  have fresh1: "\<forall>t rest. objects_filter
                   (token_identifier example_collaborators example_request example_view)
                   (flow_tokens example_view) = t # rest
                 \<longrightarrow> \<not> is_expired example_collaborators example_request t"
    by (simp add: example_defs objects_filter_def)
  have fresh2: "\<not> is_expired example_collaborators reload_request token_A"
    by (simp add: example_defs FlowToken_is_expired_def)
  have k: "key token_A = ''key-A''"
    by (simp add: example_defs)
  from get_token_twice_same_key [OF first same_user fresh1 fresh2] first fresh2 k show ?thesis by simp
qed

text \<open>
  C5, as amended. When \<open>get_token\<close> finds no token for the identifier, the token it
  creates expires at the creation time plus \<open>token_expiry + 1\<close> minutes (the source adds
  a minute "because django timesince always rounds down"), and is added to the table.
\<close>

theorem get_token_create_expires:
  assumes "objects_filter (token_identifier E request self) (flow_tokens self) = []"
  shows "expires (fst (get_token E request self))
           = now request + timedelta_minutes (token_expiry (executor_current_stage self) + 1)
       \<and> flow_tokens (snd (get_token E request self))
           = flow_tokens self @ [fst (get_token E request self)]"
  using assms by (simp add: get_token_def Let_def objects_create_def)

text \<open>
  C5 as amended, at a concrete input: \<open>token_expiry = 16\<close> at time 0 gives 17 minutes.
\<close>

theorem get_token_create_expires_witness:
  "objects_filter (token_identifier example_collaborators example_request example_view)
     (flow_tokens example_view) = []
   \<and> token_expiry (executor_current_stage example_view) = 16
   \<and> now example_request = 0
   \<and> expires (fst (get_token example_collaborators example_request example_view))
       = timedelta_minutes 17"
proof -
  have h: "objects_filter (token_identifier example_collaborators example_request example_view)
     (flow_tokens example_view) = []"
    by (simp add: example_defs objects_filter_def)
  have t: "token_expiry (executor_current_stage example_view) = 16"
    by (simp add: example_defs)
  have n: "now example_request = 0"
    by (simp add: example_defs)
  from get_token_create_expires [OF h] h t n show ?thesis by simp
qed

text \<open>
  C5 as stated fails: with \<open>token_expiry = 16\<close> the token does not expire at the
  creation time plus 16 minutes.
\<close>

theorem get_token_create_expires_counterexample:
  "objects_filter (token_identifier example_collaborators example_request example_view)
     (flow_tokens example_view) = []
   \<and> token_expiry (executor_current_stage example_view) = 16
   \<and> expires (fst (get_token example_collaborators example_request example_view))
       \<noteq> now example_request
           + timedelta_minutes (token_expiry (executor_current_stage example_view))"
  by (simp add: example_defs get_token_def Let_def objects_create_def objects_filter_def
        timedelta_minutes_def)

text \<open>
  C6. When \<open>get_token\<close> finds a token for the identifier that is not expired, it
  returns that very token and changes nothing: the token and the whole state, the token
  table included, are as before. This holds for any \<open>is_expired\<close>, so also for a token
  about to expire.
\<close>

theorem get_token_existing_unchanged:
  assumes "objects_filter (token_identifier E request self) (flow_tokens self) = token # rest"
      and "\<not> is_expired E request token"
  shows "get_token E request self = (token, self)"
  using assms by (simp add: get_token_def Let_def)

text \<open>
  C6, at a concrete input: a reload at the very moment the token expires.
\<close>

theorem get_token_existing_unchanged_witness:
  "objects_filter (token_identifier example_collaborators reload_request view_with_token)
     (flow_tokens view_with_token) = [token_A]
   \<and> expires token_A = now reload_request
   \<and> \<not> is_expired example_collaborators reload_request token_A
   \<and> get_token example_collaborators reload_request view_with_token = (token_A, view_with_token)"
proof -
  have h1: "objects_filter (token_identifier example_collaborators reload_request view_with_token)
     (flow_tokens view_with_token) = [token_A]"
    by (simp add: example_defs token_identifier_def objects_filter_def Let_def)
  have h2: "\<not> is_expired example_collaborators reload_request token_A"
    by (simp add: example_defs FlowToken_is_expired_def)
  have e: "expires token_A = now reload_request"
    by (simp add: example_defs)
  from get_token_existing_unchanged [OF h1 h2] h1 h2 e show ?thesis by simp
qed






text \<open>
  C9. \<open>send_email\<close> sends exactly one mail, to one recipient: the value of the plan
  context under the key \<open>email\<close> when there is one and it is truthy, the stored address
  of the pending user otherwise.
\<close>

theorem send_email_recipient:
  "\<exists>stage message. outbox (send_email E request self) = outbox self @ [(stage, message)]
     \<and> msg_to message =
         [case map_of (plan_context (executor_plan self)) PLAN_CONTEXT_EMAIL_OVERRIDE of
            Some v \<Rightarrow> if truthy v then v
                      else PyStr (email (users self (get_pending_user E request
                                                       (plan_context (executor_plan self)))))
          | None \<Rightarrow> PyStr (email (users self (get_pending_user E request
                                                  (plan_context (executor_plan self)))))]"
proof -
  from send_email_message [of E request self] obtain message where
    run: "send_email E request self =
       send_mails (executor_current_stage self) message (snd (get_token E request self))"
    and rcpt: "msg_to message =
         [if truthy (dict_get (plan_context (executor_plan self)) PLAN_CONTEXT_EMAIL_OVERRIDE PyNone)
          then dict_get (plan_context (executor_plan self)) PLAN_CONTEXT_EMAIL_OVERRIDE PyNone
          else PyStr (email (users self (get_pending_user E request (plan_context (executor_plan self)))))]"
    by blast
  from run have "outbox (send_email E request self)
                   = outbox self @ [(executor_current_stage self, message)]"
    by (simp add: send_mails_def)
  moreover from rcpt have "msg_to message =
         [case map_of (plan_context (executor_plan self)) PLAN_CONTEXT_EMAIL_OVERRIDE of
            Some v \<Rightarrow> if truthy v then v
                      else PyStr (email (users self (get_pending_user E request
                                                       (plan_context (executor_plan self)))))
          | None \<Rightarrow> PyStr (email (users self (get_pending_user E request
                                                  (plan_context (executor_plan self)))))]"
    by (simp add: dict_get_def split: option.splits)
  ultimately show ?thesis by blast
qed

text \<open>
  C9, at concrete inputs: without and with an address in the plan context.
\<close>

theorem send_email_recipient_witness:
  "(\<exists>stage message. outbox (send_email example_collaborators example_request example_view)
                       = [(stage, message)]
      \<and> msg_to message = [PyStr ''alice@example.org''])
   \<and> (\<exists>stage message. outbox (send_email example_collaborators example_request view_with_override)
                       = [(stage, message)]
      \<and> msg_to message = [PyStr ''bob@example.org''])"
proof -
  have a: "outbox example_view = []"
    "map_of (plan_context (executor_plan example_view)) PLAN_CONTEXT_EMAIL_OVERRIDE = None"
    "email (users example_view (get_pending_user example_collaborators example_request
                                  (plan_context (executor_plan example_view)))) = ''alice@example.org''"
    by (simp_all add: example_defs PLAN_CONTEXT_EMAIL_OVERRIDE_def)
  have b: "outbox view_with_override = []"
    "map_of (plan_context (executor_plan view_with_override)) PLAN_CONTEXT_EMAIL_OVERRIDE
       = Some (PyStr ''bob@example.org'')"
    by (simp_all add: example_defs view_with_override_def PLAN_CONTEXT_EMAIL_OVERRIDE_def)
  from send_email_recipient [of example_collaborators example_request example_view]
       send_email_recipient [of example_collaborators example_request view_with_override] a b
  show ?thesis by simp
qed

text \<open>
  C10. \<open>challenge_valid\<close> is the base class's \<open>challenge_invalid\<close> on the same
  response and nothing else: the state, the mails included, is unchanged. With a pending
  user, \<open>EmailStageView.challenge_invalid\<close> gives the same response but does send a
  mail.
\<close>

theorem challenge_valid_is_base_challenge_invalid:
  "challenge_valid response self = (ChallengeStageView_challenge_invalid response, self)
   \<and> outbox (snd (challenge_valid response self)) = outbox self
   \<and> (dict_in (PLAN_CONTEXT_PENDING_USER E) (plan_context (executor_plan self)) \<longrightarrow>
        fst (challenge_invalid E request response self) = fst (challenge_valid response self)
        \<and> outbox (snd (challenge_invalid E request response self)) \<noteq> outbox self)"
  using send_email_outbox [of E request self]
  by (auto simp add: challenge_valid_def challenge_invalid_def)

text \<open>
  C10, at a concrete input: a response on alice's plan.
\<close>

theorem challenge_valid_is_base_challenge_invalid_witness:
  "dict_in (PLAN_CONTEXT_PENDING_USER example_collaborators) (plan_context (executor_plan example_view))
   \<and> challenge_valid example_response example_view
       = (ChallengeStageView_challenge_invalid example_response, example_view)
   \<and> outbox (snd (challenge_valid example_response example_view)) = []
   \<and> outbox (snd (challenge_invalid example_collaborators example_request example_response
                     example_view)) \<noteq> []"
proof -
  have h: "dict_in (PLAN_CONTEXT_PENDING_USER example_collaborators)
             (plan_context (executor_plan example_view))"
    by (simp add: example_defs dict_in_def)
  have e: "outbox example_view = []"
    by (simp add: example_defs)
  from challenge_valid_is_base_challenge_invalid [of example_response example_view example_collaborators example_request] h e
  show ?thesis by simp
qed

end
